theory Spec2Isabelle
  imports Complex_Main
begin

section \<open>Traffic-flood scenario: \<open>chaos_test_ddos_demo.py\<close>\<close>

text \<open>
  Python floats are modelled as reals and Python's unbounded integers as \<open>int\<close>.
  Every call of \<open>random.random()\<close> is replaced by an explicit argument that carries
  the number drawn, so each function below is deterministic in its arguments.
  The wall-clock entries of the \<open>results\<close> dictionary (\<open>start_time\<close>,
  \<open>end_time\<close>) and the calls of \<open>time.sleep\<close> and \<open>log\<close> take no part in any
  decision and are left out; the remaining entries of \<open>results\<close> are fields of the
  record of the object.
\<close>

definition NORMAL_USERS :: nat where "NORMAL_USERS = 5"
definition ATTACK_BOTS :: nat where "ATTACK_BOTS = 10"
definition REQUESTS_PER_USER :: nat where "REQUESTS_PER_USER = 3"
definition REQUESTS_PER_BOT :: nat where "REQUESTS_PER_BOT = 5"

record DDoSSimulation =
  normal_user_success :: int
  normal_user_fail :: int
  bot_requests_sent :: int
  bot_requests_blocked :: int
  ddos_protection_active :: bool

definition DDoSSimulation_init :: DDoSSimulation where
  "DDoSSimulation_init =
     \<lparr>normal_user_success = 0, normal_user_fail = 0, bot_requests_sent = 0,
      bot_requests_blocked = 0, ddos_protection_active = False\<rparr>"

text \<open>
  \<open>mock_server_response(is_bot)\<close>: the status code returned and the object after the
  call. The flag is written before the branch on \<open>is_bot\<close>, for every caller.
\<close>

definition mock_server_response ::
  "bool \<Rightarrow> real \<Rightarrow> DDoSSimulation \<Rightarrow> int \<times> DDoSSimulation" where
  "mock_server_response is_bot draw s =
     (let s1 = (if bot_requests_sent s > 5 then s\<lparr>ddos_protection_active := True\<rparr> else s)
      in if is_bot \<and> ddos_protection_active s1 then
           (if draw < 0.85 then (429, s1) else (200, s1))
         else if is_bot then
           (if draw < 0.30 then (429, s1) else (200, s1))
         else
           (if draw < 0.95 then (200, s1) else (503, s1)))"

text \<open>The block of \<open>simulate_normal_user\<close> that runs under the lock.\<close>

definition normal_user_record :: "int \<Rightarrow> DDoSSimulation \<Rightarrow> DDoSSimulation" where
  "normal_user_record status_code s =
     (if status_code = 200 then s\<lparr>normal_user_success := normal_user_success s + 1\<rparr>
      else s\<lparr>normal_user_fail := normal_user_fail s + 1\<rparr>)"

text \<open>The block of \<open>simulate_attack_bot\<close> that runs under the lock.\<close>

definition attack_bot_record :: "int \<Rightarrow> DDoSSimulation \<Rightarrow> DDoSSimulation" where
  "attack_bot_record status_code s =
     (let s1 = s\<lparr>bot_requests_sent := bot_requests_sent s + 1\<rparr>
      in if status_code \<in> set [429, 403]
         then s1\<lparr>bot_requests_blocked := bot_requests_blocked s1 + 1\<rparr> else s1)"

text \<open>
  One pass through the loop body of \<open>simulate_normal_user\<close> and of
  \<open>simulate_attack_bot\<close> when no other thread runs in between.
\<close>

definition normal_user_request :: "real \<Rightarrow> DDoSSimulation \<Rightarrow> DDoSSimulation" where
  "normal_user_request draw s =
     (let (status_code, s1) = mock_server_response False draw s
      in normal_user_record status_code s1)"

definition attack_bot_request :: "real \<Rightarrow> DDoSSimulation \<Rightarrow> DDoSSimulation" where
  "attack_bot_request draw s =
     (let (status_code, s1) = mock_server_response True draw s
      in attack_bot_record status_code s1)"

subsection \<open>Threads\<close>

text \<open>
  A thread is either a normal user or a bot. Its local state is the number of loop
  iterations it still has to start and, between the call of \<open>mock_server_response\<close>
  and the locked block, the status code it holds. The lock makes each locked block
  one step. The call of \<open>mock_server_response\<close> is taken as one step as well: it
  reads the counter once, and the only write is setting a flag that no step clears.
  A schedule names, step by step, the thread that moves and the number it draws;
  every execution of the threads is the run of some schedule.
\<close>

record actor =
  is_bot :: bool
  remaining :: nat
  pending :: "int option"

record engine =
  shared :: DDoSSimulation
  threads :: "actor list"

definition actor_step :: "real \<Rightarrow> actor \<Rightarrow> DDoSSimulation \<Rightarrow> actor \<times> DDoSSimulation" where
  "actor_step draw a s =
     (case pending a of
        Some status_code \<Rightarrow>
          (a\<lparr>pending := None\<rparr>,
           if is_bot a then attack_bot_record status_code s
           else normal_user_record status_code s)
      | None \<Rightarrow>
          if remaining a = 0 then (a, s)
          else (let (status_code, s1) = mock_server_response (is_bot a) draw s
                in (a\<lparr>remaining := remaining a - 1, pending := Some status_code\<rparr>, s1)))"

definition step :: "nat \<times> real \<Rightarrow> engine \<Rightarrow> engine" where
  "step c e =
     (let i = fst c in
      if i < length (threads e) then
        (let (a, s) = actor_step (snd c) (threads e ! i) (shared e)
         in \<lparr>shared = s, threads = (threads e)[i := a]\<rparr>)
      else e)"

definition run :: "(nat \<times> real) list \<Rightarrow> engine \<Rightarrow> engine" where
  "run schedule e = fold step schedule e"

definition finished :: "actor \<Rightarrow> bool" where
  "finished a = (remaining a = 0 \<and> pending a = None)"

text \<open>All threads have been joined once every one of them has left its loop.\<close>

definition joined :: "engine \<Rightarrow> bool" where
  "joined e = list_all finished (threads e)"

text \<open>
  The threads \<open>run_simulation\<close> starts, for given numbers of users and bots and given
  request budgets, and the ones it starts with the constants of the module.
\<close>

definition spawn :: "nat \<Rightarrow> nat \<Rightarrow> nat \<Rightarrow> nat \<Rightarrow> engine" where
  "spawn users per_user bots per_bot =
     \<lparr>shared = DDoSSimulation_init,
      threads = replicate users \<lparr>is_bot = False, remaining = per_user, pending = None\<rparr>
              @ replicate bots \<lparr>is_bot = True, remaining = per_bot, pending = None\<rparr>\<rparr>"

definition run_simulation :: engine where
  "run_simulation = spawn NORMAL_USERS REQUESTS_PER_USER ATTACK_BOTS REQUESTS_PER_BOT"

subsection \<open>The report\<close>

text \<open>
  Python's \<open>/\<close> raises \<open>ZeroDivisionError\<close> on a zero divisor, and
  \<open>random.choice\<close> raises \<open>IndexError\<close> on an empty sequence.
\<close>

datatype error = ZeroDivisionError | IndexError

definition truediv :: "real \<Rightarrow> real \<Rightarrow> error + real" where
  "truediv a b = (if b = 0 then Inl ZeroDivisionError else Inr (a / b))"

datatype verdict = PASS | ACCEPTABLE | FAIL

text \<open>
  \<open>generate_report\<close> prints; the model returns what the printed lines are computed
  from: the two rates, the verdict of each criterion line and whether the overall
  line is the positive one.
\<close>

record ddos_report =
  normal_success_rate :: real
  bot_block_rate :: real
  normal_user_access :: verdict
  bot_blocking :: verdict
  ddos_overall :: bool

definition DDoSSimulation_generate_report :: "DDoSSimulation \<Rightarrow> error + ddos_report" where
  "DDoSSimulation_generate_report s =
     (let total_normal = normal_user_success s + normal_user_fail s in
      case (if total_normal > 0
            then map_sum id (\<lambda>q. q * 100)
                   (truediv (real_of_int (normal_user_success s)) (real_of_int total_normal))
            else Inr 0) of
        Inl e \<Rightarrow> Inl e
      | Inr normal_rate \<Rightarrow>
         (case (if bot_requests_sent s > 0
                then map_sum id (\<lambda>q. q * 100)
                       (truediv (real_of_int (bot_requests_blocked s))
                          (real_of_int (bot_requests_sent s)))
                else Inr 0) of
            Inl e \<Rightarrow> Inl e
          | Inr block_rate \<Rightarrow>
              Inr \<lparr>normal_success_rate = normal_rate,
                   bot_block_rate = block_rate,
                   normal_user_access = (if normal_rate \<ge> 95 then PASS else FAIL),
                   bot_blocking = (if block_rate \<ge> 80 then PASS else FAIL),
                   ddos_overall = (normal_rate \<ge> 95 \<and> block_rate \<ge> 80)\<rparr>))"

section \<open>Server-attrition scenario: \<open>chaos_test_server_failure_demo.py\<close>\<close>

text \<open>
  The number \<open>random.choice\<close> draws below the length of its argument is a natural
  number taken modulo that length; \<open>datetime.now()\<close>, \<open>random.uniform(0, 50)\<close> and
  \<open>random.random()\<close> are arguments. \<open>test_duration\<close> is left out with the clock.
\<close>

definition SERVERS :: "string list" where
  "SERVERS = [''tawakkalna-riyadh-1.sa'', ''tawakkalna-riyadh-2.sa'',
              ''tawakkalna-jeddah-1.sa'', ''tawakkalna-jeddah-2.sa'',
              ''tawakkalna-dammam-1.sa'']"

record server_failure =
  time :: real
  server :: string

record ChaosTest =
  total_requests :: int
  successful_requests :: int
  failed_requests :: int
  response_times :: "real list"
  server_failures :: "server_failure list"
  active_servers :: "string list"

definition ChaosTest_init :: ChaosTest where
  "ChaosTest_init =
     \<lparr>total_requests = 0, successful_requests = 0, failed_requests = 0,
      response_times = [], server_failures = [], active_servers = SERVERS\<rparr>"

definition random_choice :: "nat \<Rightarrow> 'a list \<Rightarrow> error + 'a" where
  "random_choice k xs = (if xs = [] then Inl IndexError else Inr (xs ! (k mod length xs)))"

definition kill_random_server ::
  "nat \<Rightarrow> real \<Rightarrow> ChaosTest \<Rightarrow> error + (string option \<times> ChaosTest)" where
  "kill_random_server k now s =
     (if length (active_servers s) > 1 then
        (case random_choice k (active_servers s) of
           Inl e \<Rightarrow> Inl e
         | Inr srv \<Rightarrow>
             Inr (Some srv,
                  s\<lparr>active_servers := remove1 srv (active_servers s),
                    server_failures := server_failures s @ [\<lparr>time = now, server = srv\<rparr>]\<rparr>))
      else Inr (None, s))"

text \<open>The local variable \<open>success_probability\<close> of \<open>mock_health_check\<close>.\<close>

definition success_probability :: "ChaosTest \<Rightarrow> real" where
  "success_probability s = 0.95 + (real (length (active_servers s)) - 1) * 0.01"

definition mock_health_check :: "real \<Rightarrow> real \<Rightarrow> ChaosTest \<Rightarrow> error + (bool \<times> real)" where
  "mock_health_check jitter draw s =
     (case truediv 5 (real (length (active_servers s))) of
        Inl e \<Rightarrow> Inl e
      | Inr load_factor \<Rightarrow>
          Inr (draw < success_probability s, 100 * load_factor + jitter))"

definition check_system_health ::
  "real \<Rightarrow> real \<Rightarrow> ChaosTest \<Rightarrow> error + (bool \<times> ChaosTest)" where
  "check_system_health jitter draw s =
     (let s1 = s\<lparr>total_requests := total_requests s + 1\<rparr> in
      case mock_health_check jitter draw s1 of
        Inl e \<Rightarrow> Inl e
      | Inr (success, response_time) \<Rightarrow>
          if success then
            Inr (True, s1\<lparr>successful_requests := successful_requests s1 + 1,
                         response_times := response_times s1 @ [response_time]\<rparr>)
          else
            Inr (False, s1\<lparr>failed_requests := failed_requests s1 + 1\<rparr>))"

record chaos_report =
  success_rate :: real
  avg_response_time :: real
  success_rate_verdict :: verdict
  response_time_verdict :: verdict
  chaos_overall :: bool

definition ChaosTest_generate_report :: "ChaosTest \<Rightarrow> error + chaos_report" where
  "ChaosTest_generate_report s =
     (let total = total_requests s; success = successful_requests s in
      case (if total > 0
            then map_sum id (\<lambda>q. q * 100) (truediv (real_of_int success) (real_of_int total))
            else Inr 0) of
        Inl e \<Rightarrow> Inl e
      | Inr rate \<Rightarrow>
         (case (if response_times s \<noteq> []
                then truediv (sum_list (response_times s)) (real (length (response_times s)))
                else Inr 0) of
            Inl e \<Rightarrow> Inl e
          | Inr avg \<Rightarrow>
              Inr \<lparr>success_rate = rate,
                   avg_response_time = avg,
                   success_rate_verdict =
                     (if rate \<ge> 99.9 then PASS else if rate \<ge> 95 then ACCEPTABLE else FAIL),
                   response_time_verdict = (if avg < 3000 then PASS else FAIL),
                   chaos_overall = (rate \<ge> 95 \<and> avg < 3000)\<rparr>))"

text \<open>
  Sequences of calls on one object. \<open>run_test\<close> makes one such sequence: a health
  check, then ten rounds of an optional kill followed by a health check.
\<close>

datatype call = Kill nat real | Check real real

definition call :: "call \<Rightarrow> ChaosTest \<Rightarrow> error + ChaosTest" where
  "call c s =
     (case c of
        Kill k now \<Rightarrow> map_sum id snd (kill_random_server k now s)
      | Check jitter draw \<Rightarrow> map_sum id snd (check_system_health jitter draw s))"

fun calls :: "call list \<Rightarrow> ChaosTest \<Rightarrow> error + ChaosTest" where
  "calls [] s = Inr s"
| "calls (c # cs) s = (case call c s of Inl e \<Rightarrow> Inl e | Inr s1 \<Rightarrow> calls cs s1)"

text \<open>What holds of the object after every sequence of calls.\<close>

definition pool_ok :: "ChaosTest \<Rightarrow> bool" where
  "pool_ok s =
     (1 \<le> length (active_servers s) \<and> length (active_servers s) \<le> 5 \<and>
      distinct (active_servers s) \<and>
      set (active_servers s) \<inter> server ` set (server_failures s) = {})"

definition metrics_ok :: "ChaosTest \<Rightarrow> bool" where
  "metrics_ok s =
     (int (length (response_times s)) = successful_requests s \<and>
      total_requests s = successful_requests s + failed_requests s)"

text \<open>The object after the first four of the five servers have been killed in turn.\<close>

definition one_server_left :: ChaosTest where
  "one_server_left =
     \<lparr>total_requests = 0, successful_requests = 0, failed_requests = 0,
      response_times = [],
      server_failures =
        [\<lparr>time = 1, server = ''tawakkalna-riyadh-1.sa''\<rparr>,
         \<lparr>time = 2, server = ''tawakkalna-riyadh-2.sa''\<rparr>,
         \<lparr>time = 3, server = ''tawakkalna-jeddah-1.sa''\<rparr>,
         \<lparr>time = 4, server = ''tawakkalna-jeddah-2.sa''\<rparr>],
      active_servers = [''tawakkalna-dammam-1.sa'']\<rparr>"

text \<open>
  An object whose list of active servers has been given seven entries; the list of
  the module has five.
\<close>

definition seven_servers :: ChaosTest where
  "seven_servers =
     ChaosTest_init\<lparr>active_servers :=
       SERVERS @ [''tawakkalna-makkah-1.sa'', ''tawakkalna-makkah-2.sa'']\<rparr>"

section \<open>Properties of the traffic-flood scenario\<close>

text \<open>
  Requests a thread has not yet recorded: the iterations it still has to start, and
  one more while it holds a status code outside the lock.
\<close>

definition owed :: "bool \<Rightarrow> actor \<Rightarrow> int" where
  "owed b a = (if is_bot a = b
               then int (remaining a) + (if pending a = None then 0 else 1) else 0)"

definition outstanding :: "bool \<Rightarrow> actor list \<Rightarrow> int" where
  "outstanding b as = sum_list (map (owed b) as)"

definition normal_total :: "DDoSSimulation \<Rightarrow> int" where
  "normal_total s = normal_user_success s + normal_user_fail s"

text \<open>
  Steps a thread still has to take: two for each iteration not yet started, one while
  it holds a status code.
\<close>

definition work :: "actor \<Rightarrow> nat" where
  "work a = 2 * remaining a + (if pending a = None then 0 else 1)"

definition load :: "actor list \<Rightarrow> nat" where
  "load as = sum_list (map work as)"

text \<open>The schedule in which thread \<open>0\<close> takes \<open>k\<close> steps, then thread \<open>1\<close>, and so on.\<close>

definition sequential :: "nat \<Rightarrow> nat \<Rightarrow> real \<Rightarrow> (nat \<times> real) list" where
  "sequential n k draw = concat (map (\<lambda>i. replicate k (i, draw)) [0..<n])"

text \<open>The object once five bot requests have been recorded and nothing else.\<close>

definition five_bot_requests :: DDoSSimulation where
  "five_bot_requests = DDoSSimulation_init\<lparr>bot_requests_sent := 5\<rparr>"

subsection \<open>Counters against budgets\<close>

lemma outstanding_update:
  "i < length as \<Longrightarrow>
   outstanding b (as[i := a]) = outstanding b as - owed b (as ! i) + owed b a"
  unfolding outstanding_def
proof (induction as arbitrary: i)
  case Nil
  then show ?case by simp
next
  case (Cons x xs)
  then show ?case by (cases i) simp_all
qed

lemma actor_step_normal:
  "actor_step d a s = (a', s') \<Longrightarrow>
   normal_total s' + owed False a' = normal_total s + owed False a"
  by (auto simp: actor_step_def owed_def normal_total_def normal_user_record_def
      attack_bot_record_def Let_def mock_server_response_def
      split: option.splits if_splits prod.splits)

lemma actor_step_bot:
  "actor_step d a s = (a', s') \<Longrightarrow>
   bot_requests_sent s' + owed True a' = bot_requests_sent s + owed True a"
  by (auto simp: actor_step_def owed_def normal_user_record_def
      attack_bot_record_def Let_def mock_server_response_def
      split: option.splits if_splits prod.splits)

lemma step_normal:
  "normal_total (shared (step c e)) + outstanding False (threads (step c e))
   = normal_total (shared e) + outstanding False (threads e)"
proof (cases "fst c < length (threads e)")
  case True
  obtain a s where as: "actor_step (snd c) (threads e ! fst c) (shared e) = (a, s)"
    by (cases "actor_step (snd c) (threads e ! fst c) (shared e)")
  from actor_step_normal[OF as] True as show ?thesis
    by (simp add: step_def Let_def outstanding_update)
next
  case False
  then show ?thesis by (simp add: step_def Let_def)
qed

lemma step_bot:
  "bot_requests_sent (shared (step c e)) + outstanding True (threads (step c e))
   = bot_requests_sent (shared e) + outstanding True (threads e)"
proof (cases "fst c < length (threads e)")
  case True
  obtain a s where as: "actor_step (snd c) (threads e ! fst c) (shared e) = (a, s)"
    by (cases "actor_step (snd c) (threads e ! fst c) (shared e)")
  from actor_step_bot[OF as] True as show ?thesis
    by (simp add: step_def Let_def outstanding_update)
next
  case False
  then show ?thesis by (simp add: step_def Let_def)
qed

lemma run_normal:
  "normal_total (shared (run sch e)) + outstanding False (threads (run sch e))
   = normal_total (shared e) + outstanding False (threads e)"
  unfolding run_def
  by (induction sch arbitrary: e) (simp_all add: step_normal)

lemma run_bot:
  "bot_requests_sent (shared (run sch e)) + outstanding True (threads (run sch e))
   = bot_requests_sent (shared e) + outstanding True (threads e)"
  unfolding run_def
  by (induction sch arbitrary: e) (simp_all add: step_bot)

lemma finished_outstanding: "list_all finished as \<Longrightarrow> outstanding b as = 0"
  unfolding outstanding_def
  by (induction as) (simp_all add: finished_def owed_def)

lemma joined_outstanding: "joined e \<Longrightarrow> outstanding b (threads e) = 0"
  by (simp add: joined_def finished_outstanding)

lemma outstanding_spawn:
  "outstanding False (threads (spawn n r m q)) = int (n * r)"
  "outstanding True (threads (spawn n r m q)) = int (m * q)"
  by (simp_all add: spawn_def outstanding_def owed_def map_replicate_const
      sum_list_replicate comp_def)

lemma shared_spawn:
  "normal_total (shared (spawn n r m q)) = 0"
  "bot_requests_sent (shared (spawn n r m q)) = 0"
  by (simp_all add: spawn_def normal_total_def DDoSSimulation_init_def)

lemma totals_after_join:
  assumes "joined (run sch (spawn n r m q))"
  shows "normal_user_success (shared (run sch (spawn n r m q)))
       + normal_user_fail (shared (run sch (spawn n r m q))) = int (n * r) \<and>
     bot_requests_sent (shared (run sch (spawn n r m q))) = int (m * q)"
proof -
  let ?e = "run sch (spawn n r m q)"
  have "normal_total (shared ?e) + outstanding False (threads ?e) = int (n * r)"
    by (simp add: run_normal outstanding_spawn shared_spawn)
  moreover have "bot_requests_sent (shared ?e) + outstanding True (threads ?e) = int (m * q)"
    by (simp add: run_bot outstanding_spawn shared_spawn)
  ultimately show ?thesis
    using joined_outstanding[OF assms] by (simp add: normal_total_def)
qed

lemma finished_work: "finished a = (work a = 0)"
  by (auto simp: finished_def work_def)

lemma joined_load: "joined e = (load (threads e) = 0)"
  by (auto simp: joined_def load_def list_all_iff finished_work)

lemma actor_step_work:
  "\<not> finished a \<Longrightarrow> work (fst (actor_step d a s)) < work a"
  by (auto simp: finished_def work_def actor_step_def split: option.splits prod.splits)

lemma load_update:
  "i < length as \<Longrightarrow> load (as[i := a]) + work (as ! i) = load as + work a"
  unfolding load_def
proof (induction as arbitrary: i)
  case Nil
  then show ?case by simp
next
  case (Cons x xs)
  then show ?case by (cases i) (simp_all add: add.assoc add.left_commute)
qed

lemma step_load:
  assumes "i < length (threads e)" "\<not> finished (threads e ! i)"
  shows "load (threads (step (i, d) e)) < load (threads e)"
proof -
  obtain a s where as: "actor_step d (threads e ! i) (shared e) = (a, s)"
    by (cases "actor_step d (threads e ! i) (shared e)")
  with actor_step_work[OF assms(2), of d "shared e"] have "work a < work (threads e ! i)"
    by simp
  moreover from as assms(1) have "threads (step (i, d) e) = (threads e)[i := a]"
    by (simp add: step_def)
  ultimately show ?thesis
    using load_update[OF assms(1), of a] by simp
qed

lemma unfinished_thread:
  "\<not> joined e \<Longrightarrow> \<exists>i < length (threads e). \<not> finished (threads e ! i)"
  by (auto simp: joined_def list_all_length)

lemma can_join: "\<exists>sch. joined (run sch e)"
proof (induction "load (threads e)" arbitrary: e rule: less_induct)
  case less
  show ?case
  proof (cases "joined e")
    case True
    then have "joined (run [] e)" by (simp add: run_def)
    then show ?thesis by blast
  next
    case False
    from unfinished_thread[OF False] obtain i where
      i: "i < length (threads e)" "\<not> finished (threads e ! i)" by blast
    from less[OF step_load[OF i, of 0]] obtain sch where
      "joined (run sch (step (i, 0) e))" by blast
    then have "joined (run ((i, 0) # sch) e)" by (simp add: run_def)
    then show ?thesis by blast
  qed
qed

text \<open>
  Claim C1. Whatever the interleaving of the threads, once all of them have been
  joined the normal-user counters add up to the number of users times the requests
  per user and the bot counter equals the number of bots times the requests per bot;
  with the constants of the module these are 15 and 50. No update is lost and none is
  counted twice. Every run can be continued until all threads have been joined.
\<close>

theorem C1_totals_equal_actors_times_budget:
  "(joined (run schedule (spawn users per_user bots per_bot)) \<longrightarrow>
      normal_user_success (shared (run schedule (spawn users per_user bots per_bot)))
        + normal_user_fail (shared (run schedule (spawn users per_user bots per_bot)))
        = int (users * per_user) \<and>
      bot_requests_sent (shared (run schedule (spawn users per_user bots per_bot)))
        = int (bots * per_bot)) \<and>
   (joined (run schedule run_simulation) \<longrightarrow>
      normal_user_success (shared (run schedule run_simulation))
        + normal_user_fail (shared (run schedule run_simulation)) = 15 \<and>
      bot_requests_sent (shared (run schedule run_simulation)) = 50) \<and>
   (\<exists>rest. joined (run (schedule @ rest) (spawn users per_user bots per_bot)))"
proof (intro conjI impI)
  assume j: "joined (run schedule run_simulation)"
  then have j': "joined (run schedule (spawn 5 3 10 5))"
    by (simp add: run_simulation_def NORMAL_USERS_def REQUESTS_PER_USER_def
        ATTACK_BOTS_def REQUESTS_PER_BOT_def)
  from totals_after_join[OF j']
  show "normal_user_success (shared (run schedule run_simulation))
        + normal_user_fail (shared (run schedule run_simulation)) = 15"
    and "bot_requests_sent (shared (run schedule run_simulation)) = 50"
    by (simp_all add: run_simulation_def NORMAL_USERS_def REQUESTS_PER_USER_def
        ATTACK_BOTS_def REQUESTS_PER_BOT_def)
next
  from can_join[of "run schedule (spawn users per_user bots per_bot)"]
  show "\<exists>rest. joined (run (schedule @ rest) (spawn users per_user bots per_bot))"
    by (simp add: run_def)
qed (simp_all add: totals_after_join)

theorem C1_totals_witness:
  "joined (run (sequential 15 10 0) run_simulation) \<and>
   normal_user_success (shared (run (sequential 15 10 0) run_simulation))
     + normal_user_fail (shared (run (sequential 15 10 0) run_simulation)) = 15 \<and>
   bot_requests_sent (shared (run (sequential 15 10 0) run_simulation)) = 50"
proof -
  have j: "joined (run (sequential 15 10 0) run_simulation)"
    by code_simp
  from C1_totals_equal_actors_times_budget[of "sequential 15 10 0", THEN conjunct2] j
  show ?thesis by blast
qed

subsection \<open>The protection flag\<close>

lemma mock_server_response_flag:
  "ddos_protection_active (snd (mock_server_response b d s))
   = (ddos_protection_active s \<or> bot_requests_sent s > 5)"
  by (simp add: mock_server_response_def Let_def)

lemma mock_server_response_sent:
  "bot_requests_sent (snd (mock_server_response b d s)) = bot_requests_sent s"
  by (simp add: mock_server_response_def Let_def)

lemma record_flag:
  "ddos_protection_active (normal_user_record c s) = ddos_protection_active s"
  "ddos_protection_active (attack_bot_record c s) = ddos_protection_active s"
  by (simp_all add: normal_user_record_def attack_bot_record_def Let_def)

lemma actor_step_flag:
  "ddos_protection_active s \<Longrightarrow> ddos_protection_active (snd (actor_step d a s))"
  by (simp add: actor_step_def record_flag mock_server_response_flag
      split: option.splits prod.splits)
    (metis mock_server_response_flag snd_conv)

lemma step_flag:
  "ddos_protection_active (shared e) \<Longrightarrow> ddos_protection_active (shared (step c e))"
  using actor_step_flag[of "shared e" "snd c" "threads e ! fst c"]
  by (auto simp: step_def Let_def split: prod.splits)

lemma run_flag:
  "ddos_protection_active (shared e) \<Longrightarrow> ddos_protection_active (shared (run sch e))"
  unfolding run_def
  by (induction sch arbitrary: e) (simp_all add: step_flag)

lemma run_append: "run (sch1 @ sch2) e = run sch2 (run sch1 e)"
  by (simp add: run_def)

text \<open>
  Claim C2, as the code has it. \<open>mock_server_response\<close>, for a bot as for a normal
  user, leaves the counter of bot requests as it is and sets the flag when the counter
  it reads is greater than 5; the flag is then set if and only if it was set before or
  the counter read exceeds 5. The counter goes up by one in the locked block that
  follows the call, which leaves the flag alone. A counter of 5 at the call does not
  set the flag, a counter of 6 does.
\<close>

theorem C2_flag_set_from_recorded_count:
  "bot_requests_sent (snd (mock_server_response by_bot draw s)) = bot_requests_sent s \<and>
   ddos_protection_active (snd (mock_server_response by_bot draw s))
     = (ddos_protection_active s \<or> bot_requests_sent s > 5) \<and>
   attack_bot_request draw s
     = attack_bot_record (fst (mock_server_response True draw s))
         (snd (mock_server_response True draw s)) \<and>
   bot_requests_sent (attack_bot_record status_code s) = bot_requests_sent s + 1 \<and>
   ddos_protection_active (attack_bot_record status_code s) = ddos_protection_active s"
  by (simp add: mock_server_response_flag mock_server_response_sent record_flag
      attack_bot_request_def split: prod.splits)
    (simp add: attack_bot_record_def Let_def)

text \<open>
  Claim C2 as stated fails: the sixth bot request, made when five have been recorded,
  goes through \<open>mock_server_response\<close> with the counter still at 5, and when the
  request has been recorded the counter is 6, one above the threshold, and the flag is
  still false.
\<close>

theorem C2_increment_first_counterexample:
  "bot_requests_sent five_bot_requests = 5 \<and>
   bot_requests_sent (snd (mock_server_response True 0 five_bot_requests)) = 5 \<and>
   bot_requests_sent (attack_bot_request 0 five_bot_requests) = 5 + 1 \<and>
   \<not> ddos_protection_active (attack_bot_request 0 five_bot_requests)"
  by (simp add: five_bot_requests_def DDoSSimulation_init_def attack_bot_request_def
      mock_server_response_def attack_bot_record_def Let_def)

text \<open>
  Claim C3. The flag is false in a new object. The call of \<open>mock_server_response\<close>
  and both locked blocks keep a flag that is set, and so does every further stretch
  of every schedule: once true after some prefix of a run, the flag is true after
  every extension of that prefix.
\<close>

theorem C3_protection_flag_monotonic:
  "\<not> ddos_protection_active DDoSSimulation_init \<and>
   \<not> ddos_protection_active (shared (spawn users per_user bots per_bot)) \<and>
   (ddos_protection_active s \<longrightarrow>
      ddos_protection_active (snd (mock_server_response by_bot draw s)) \<and>
      ddos_protection_active (normal_user_record status_code s) \<and>
      ddos_protection_active (attack_bot_record status_code s)) \<and>
   (ddos_protection_active (shared (run sch1 e)) \<longrightarrow>
      ddos_protection_active (shared (run (sch1 @ sch2) e)))"
  by (simp add: DDoSSimulation_init_def spawn_def mock_server_response_flag record_flag
      run_append run_flag)

theorem C3_protection_flag_witness:
  "ddos_protection_active (shared (run (replicate 10 (5, 0) @ replicate 3 (6, 0)) run_simulation)) \<and>
   ddos_protection_active
     (shared (run ((replicate 10 (5, 0) @ replicate 3 (6, 0)) @ sequential 5 6 1) run_simulation)) \<and>
   ddos_protection_active
     (snd (mock_server_response False 1
        (shared (run (replicate 10 (5, 0) @ replicate 3 (6, 0)) run_simulation))))"
proof -
  have a: "ddos_protection_active
      (shared (run (replicate 10 (5, 0) @ replicate 3 (6, 0)) run_simulation))"
    by code_simp
  from C3_protection_flag_monotonic[where
      s = "shared (run (replicate 10 (5, 0) @ replicate 3 (6, 0)) run_simulation)"
      and by_bot = False and draw = 1 and e = run_simulation
      and ?sch1.0 = "replicate 10 (5, 0) @ replicate 3 (6, 0)"
      and ?sch2.0 = "sequential 5 6 1"] a
  show ?thesis by blast
qed

text \<open>
  Claim C9. For a normal user the status code is 200 when the number drawn is below
  0.95 and 503 otherwise, whatever the flag and the counters are: two objects give
  the same status code for the same draw.
\<close>

theorem C9_normal_outcome_independent_of_attack_state:
  "fst (mock_server_response False draw s) = (if draw < 0.95 then 200 else 503) \<and>
   fst (mock_server_response False draw s) = fst (mock_server_response False draw s')"
  by (simp add: mock_server_response_def Let_def)

section \<open>Properties of the server-attrition scenario and of the reports\<close>

lemma pool_ok_init: "pool_ok ChaosTest_init"
  by (simp add: pool_ok_def ChaosTest_init_def SERVERS_def)

lemma metrics_ok_init: "metrics_ok ChaosTest_init"
  by (simp add: metrics_ok_def ChaosTest_init_def)

lemma random_choice_member:
  "xs \<noteq> [] \<Longrightarrow> \<exists>x. random_choice k xs = Inr x \<and> x = xs ! (k mod length xs) \<and> x \<in> set xs"
  by (simp add: random_choice_def)

lemma kill_many:
  assumes "1 < length (active_servers s)"
  shows "\<exists>srv. srv = active_servers s ! (k mod length (active_servers s)) \<and>
           srv \<in> set (active_servers s) \<and>
           kill_random_server k now s =
             Inr (Some srv,
                  s\<lparr>active_servers := remove1 srv (active_servers s),
                    server_failures := server_failures s @ [\<lparr>time = now, server = srv\<rparr>]\<rparr>)"
proof -
  from assms have ne: "active_servers s \<noteq> []" by auto
  from random_choice_member[OF ne, of k] assms show ?thesis
    by (auto simp: kill_random_server_def)
qed

lemma kill_one:
  "length (active_servers s) \<le> 1 \<Longrightarrow> kill_random_server k now s = Inr (None, s)"
  by (simp add: kill_random_server_def)

lemma pool_ok_kill:
  assumes "pool_ok s"
  shows "\<exists>r s'. kill_random_server k now s = Inr (r, s') \<and> pool_ok s' \<and>
           (metrics_ok s \<longrightarrow> metrics_ok s')"
proof (cases "1 < length (active_servers s)")
  case True
  from kill_many[OF True, of k now] obtain srv where
    mem: "srv \<in> set (active_servers s)" and
    k: "kill_random_server k now s =
             Inr (Some srv,
                  s\<lparr>active_servers := remove1 srv (active_servers s),
                    server_failures := server_failures s @ [\<lparr>time = now, server = srv\<rparr>]\<rparr>)"
    by blast
  from assms True mem have "pool_ok (s\<lparr>active_servers := remove1 srv (active_servers s),
                    server_failures := server_failures s @ [\<lparr>time = now, server = srv\<rparr>]\<rparr>)"
    by (auto simp: pool_ok_def length_remove1)
  with k show ?thesis by (simp add: metrics_ok_def)
next
  case False
  then have "kill_random_server k now s = Inr (None, s)" by (simp add: kill_one)
  with assms show ?thesis by simp
qed

lemma check_result:
  assumes "active_servers s \<noteq> []"
  shows "check_system_health jitter draw s =
      (if draw < success_probability s
       then Inr (True, s\<lparr>total_requests := total_requests s + 1,
                        successful_requests := successful_requests s + 1,
                        response_times := response_times s
                           @ [100 * (5 / real (length (active_servers s))) + jitter]\<rparr>)
       else Inr (False, s\<lparr>total_requests := total_requests s + 1,
                          failed_requests := failed_requests s + 1\<rparr>))"
  using assms
  by (simp add: check_system_health_def mock_health_check_def truediv_def Let_def
      success_probability_def)

lemma pool_ok_check:
  assumes "pool_ok s"
  shows "\<exists>ok s'. check_system_health jitter draw s = Inr (ok, s') \<and> pool_ok s' \<and>
           (metrics_ok s \<longrightarrow> metrics_ok s')"
proof -
  from assms have ne: "active_servers s \<noteq> []" by (auto simp: pool_ok_def)
  show ?thesis
    using assms by (auto simp: check_result[OF ne] pool_ok_def metrics_ok_def)
qed

lemma call_ok:
  assumes "pool_ok s" "metrics_ok s"
  shows "\<exists>s'. call c s = Inr s' \<and> pool_ok s' \<and> metrics_ok s'"
proof (cases c)
  case (Kill k now)
  from pool_ok_kill[OF assms(1), of k now] assms(2) Kill show ?thesis
    by (auto simp: call_def)
next
  case (Check jitter draw)
  from pool_ok_check[OF assms(1), of jitter draw] assms(2) Check show ?thesis
    by (auto simp: call_def)
qed

lemma calls_ok:
  "pool_ok s \<Longrightarrow> metrics_ok s \<Longrightarrow> \<exists>s'. calls cs s = Inr s' \<and> pool_ok s' \<and> metrics_ok s'"
proof (induction cs arbitrary: s)
  case Nil
  then show ?case by simp
next
  case (Cons c cs)
  from call_ok[OF Cons.prems, of c] obtain s1 where
    "call c s = Inr s1" "pool_ok s1" "metrics_ok s1" by blast
  with Cons.IH[of s1] show ?case by simp
qed

lemma calls_init_ok:
  "calls cs ChaosTest_init = Inr s \<Longrightarrow> pool_ok s \<and> metrics_ok s"
  using calls_ok[OF pool_ok_init metrics_ok_init, of cs] by auto

lemma calls_total: "\<exists>s. calls cs ChaosTest_init = Inr s"
  using calls_ok[OF pool_ok_init metrics_ok_init, of cs] by auto

lemma kill_length:
  assumes "1 < length (active_servers s)"
  shows "\<exists>s'. call (Kill k now) s = Inr s' \<and>
           length (active_servers s') = length (active_servers s) - 1 \<and>
           length (server_failures s') = length (server_failures s) + 1"
  using kill_many[OF assms, of k now]
  by (auto simp: call_def length_remove1)

lemma kills_at_one:
  "length (active_servers s) = 1 \<Longrightarrow> calls (map (case_prod Kill) kts) s = Inr s"
  by (induction kts) (auto simp: call_def kill_one)

lemma four_kills:
  "calls [Kill 0 1, Kill 0 2, Kill 0 3, Kill 0 4] ChaosTest_init = Inr one_server_left"
  by (simp add: call_def kill_random_server_def random_choice_def ChaosTest_init_def
      SERVERS_def one_server_left_def)

lemma one_server_left_length: "length (active_servers one_server_left) = 1"
  by (simp add: one_server_left_def)

lemma init_length: "length (active_servers ChaosTest_init) = 5"
  by (simp add: ChaosTest_init_def SERVERS_def)

text \<open>
  Claim C4. No sequence of calls on a new object fails, and after every such sequence
  at least one server is live; with exactly one server live, \<open>kill_random_server\<close>
  returns \<open>None\<close> and leaves the object, and so the live count of 1, as it was.
\<close>

theorem C4_pool_keeps_one_survivor:
  "(\<exists>s. calls cs ChaosTest_init = Inr s) \<and>
   (calls cs ChaosTest_init = Inr s \<longrightarrow>
      1 \<le> length (active_servers s) \<and>
      (length (active_servers s) = 1 \<longrightarrow>
         kill_random_server k now s = Inr (None, s)))"
  using calls_init_ok[of cs s] calls_total[of cs]
  by (auto simp: pool_ok_def kill_one)

theorem C4_pool_witness:
  "calls [Kill 0 1, Kill 0 2, Kill 0 3, Kill 0 4] ChaosTest_init = Inr one_server_left \<and>
   length (active_servers one_server_left) = 1 \<and>
   kill_random_server 2 5 one_server_left = Inr (None, one_server_left)"
proof -
  from C4_pool_keeps_one_survivor[of "[Kill 0 1, Kill 0 2, Kill 0 3, Kill 0 4]"
      one_server_left 2 5] four_kills one_server_left_length
  show ?thesis by blast
qed

text \<open>
  Claim C5. With more than one server live, \<open>kill_random_server\<close> returns the
  server at the position drawn, which is live; afterwards the live set is the old one
  without that server, the live count is one less, the server is the new last entry
  of \<open>server_failures\<close> with the time of the call, and no live server is among the
  killed ones. Every live server is returned for exactly one draw below the live
  count.
  Three kills on a new object, whatever is drawn, leave two servers live. With one
  server live, any number of further kills return \<open>None\<close> and change nothing.
  (How likely each draw is, is not part of the model.)
\<close>

theorem C5_kill_moves_one_server:
  "(calls cs ChaosTest_init = Inr s \<and> 1 < length (active_servers s) \<longrightarrow>
      (\<exists>srv s'. kill_random_server k now s = Inr (Some srv, s') \<and>
         srv = active_servers s ! (k mod length (active_servers s)) \<and>
         srv \<in> set (active_servers s) \<and>
         set (active_servers s') = set (active_servers s) - {srv} \<and>
         length (active_servers s') = length (active_servers s) - 1 \<and>
         server_failures s' = server_failures s @ [\<lparr>time = now, server = srv\<rparr>] \<and>
         set (active_servers s') \<inter> server ` set (server_failures s') = {}) \<and>
      (\<forall>x \<in> set (active_servers s). \<exists>!i. i < length (active_servers s) \<and>
         map_sum id fst (kill_random_server i now s) = Inr (Some x))) \<and>
   (\<exists>s3. calls [Kill k1 t1, Kill k2 t2, Kill k3 t3] ChaosTest_init = Inr s3 \<and>
      length (active_servers s3) = 2) \<and>
   (calls cs ChaosTest_init = Inr s \<and> length (active_servers s) = 1 \<longrightarrow>
      calls (map (case_prod Kill) kts) s = Inr s \<and>
      kill_random_server k now s = Inr (None, s))"
proof (intro conjI impI)
  assume a: "calls cs ChaosTest_init = Inr s \<and> 1 < length (active_servers s)"
  then have ok: "pool_ok s" and many: "1 < length (active_servers s)"
    using calls_init_ok by blast+
  from kill_many[OF many, of k now] obtain srv where
    srv: "srv = active_servers s ! (k mod length (active_servers s))"
      "srv \<in> set (active_servers s)" and
    k: "kill_random_server k now s =
             Inr (Some srv,
                  s\<lparr>active_servers := remove1 srv (active_servers s),
                    server_failures := server_failures s @ [\<lparr>time = now, server = srv\<rparr>]\<rparr>)"
    by blast
  from ok srv(2) have "set (remove1 srv (active_servers s)) = set (active_servers s) - {srv}"
    and "set (remove1 srv (active_servers s)) \<inter> server ` set (server_failures s) = {}"
    and "length (remove1 srv (active_servers s)) = length (active_servers s) - 1"
    by (auto simp: pool_ok_def length_remove1)
  with srv k
  show "\<exists>srv s'. kill_random_server k now s = Inr (Some srv, s') \<and>
         srv = active_servers s ! (k mod length (active_servers s)) \<and>
         srv \<in> set (active_servers s) \<and>
         set (active_servers s') = set (active_servers s) - {srv} \<and>
         length (active_servers s') = length (active_servers s) - 1 \<and>
         server_failures s' = server_failures s @ [\<lparr>time = now, server = srv\<rparr>] \<and>
         set (active_servers s') \<inter> server ` set (server_failures s') = {}"
    by auto
  have nth: "map_sum id fst (kill_random_server i now s) = Inr (Some (active_servers s ! i))"
    if "i < length (active_servers s)" for i
    using kill_many[OF many, of i now] that by auto
  show "\<forall>x \<in> set (active_servers s). \<exists>!i. i < length (active_servers s) \<and>
         map_sum id fst (kill_random_server i now s) = Inr (Some x)"
  proof
    fix x assume "x \<in> set (active_servers s)"
    then obtain i where i: "i < length (active_servers s)" "active_servers s ! i = x"
      by (auto simp: in_set_conv_nth)
    show "\<exists>!i. i < length (active_servers s) \<and>
         map_sum id fst (kill_random_server i now s) = Inr (Some x)"
    proof (rule ex1I[of _ i])
      from i nth[of i] show "i < length (active_servers s) \<and>
         map_sum id fst (kill_random_server i now s) = Inr (Some x)" by simp
    next
      fix j assume j: "j < length (active_servers s) \<and>
         map_sum id fst (kill_random_server j now s) = Inr (Some x)"
      with nth[of j] have e: "active_servers s ! j = active_servers s ! i"
        using i by simp
      from ok have d: "distinct (active_servers s)"
        by (simp add: pool_ok_def)
      from nth_eq_iff_index_eq[OF d, of j i] e i(1) j show "j = i"
        by blast
    qed
  qed
next
  have l0: "length (active_servers ChaosTest_init) = 5"
    by (simp add: ChaosTest_init_def SERVERS_def)
  from kill_length[of ChaosTest_init k1 t1] l0 obtain s1 where
    s1: "call (Kill k1 t1) ChaosTest_init = Inr s1" "length (active_servers s1) = 4"
    by auto
  from kill_length[of s1 k2 t2] s1(2) obtain s2 where
    s2: "call (Kill k2 t2) s1 = Inr s2" "length (active_servers s2) = 3"
    by auto
  from kill_length[of s2 k3 t3] s2(2) obtain s3 where
    s3: "call (Kill k3 t3) s2 = Inr s3" "length (active_servers s3) = 2"
    by auto
  from s1 s2 s3
  show "\<exists>s3. calls [Kill k1 t1, Kill k2 t2, Kill k3 t3] ChaosTest_init = Inr s3 \<and>
      length (active_servers s3) = 2"
    by simp
next
  assume "calls cs ChaosTest_init = Inr s \<and> length (active_servers s) = 1"
  then show "calls (map (case_prod Kill) kts) s = Inr s"
    and "kill_random_server k now s = Inr (None, s)"
    by (simp_all add: kills_at_one kill_one)
qed

theorem C5_kill_witness:
  "1 < length (active_servers ChaosTest_init) \<and>
   (\<exists>srv s'. kill_random_server 2 7 ChaosTest_init = Inr (Some srv, s') \<and>
      srv \<in> set (active_servers ChaosTest_init) \<and>
      length (active_servers s') = 4 \<and>
      set (active_servers s') \<inter> server ` set (server_failures s') = {}) \<and>
   (\<exists>i<5. map_sum id fst (kill_random_server i 7 ChaosTest_init)
             = Inr (Some ''tawakkalna-dammam-1.sa'')) \<and>
   length (active_servers one_server_left) = 1 \<and>
   calls (map (case_prod Kill) [(3, 8), (0, 9)]) one_server_left = Inr one_server_left"
proof -
  have a: "calls [] ChaosTest_init = Inr ChaosTest_init \<and>
           1 < length (active_servers ChaosTest_init)"
    by (simp add: init_length)
  have mem: "''tawakkalna-dammam-1.sa'' \<in> set (active_servers ChaosTest_init)"
    by (simp add: ChaosTest_init_def SERVERS_def)
  have b: "calls [Kill 0 1, Kill 0 2, Kill 0 3, Kill 0 4] ChaosTest_init = Inr one_server_left \<and>
           length (active_servers one_server_left) = 1"
    using four_kills one_server_left_length by blast
  note first = C5_kill_moves_one_server[where cs = "[]" and s = ChaosTest_init
      and k = 2 and now = 7, THEN conjunct1, rule_format, OF a]
  from first[THEN conjunct1] have
    "\<exists>srv s'. kill_random_server 2 7 ChaosTest_init = Inr (Some srv, s') \<and>
      srv \<in> set (active_servers ChaosTest_init) \<and>
      length (active_servers s') = 4 \<and>
      set (active_servers s') \<inter> server ` set (server_failures s') = {}"
    unfolding init_length by auto
  moreover from first[THEN conjunct2] mem have
    "\<exists>i<5. map_sum id fst (kill_random_server i 7 ChaosTest_init)
             = Inr (Some ''tawakkalna-dammam-1.sa'')"
    unfolding init_length by blast
  moreover from C5_kill_moves_one_server[where
      cs = "[Kill 0 1, Kill 0 2, Kill 0 3, Kill 0 4]" and s = one_server_left
      and kts = "[(3, 8), (0, 9)]", THEN conjunct2, THEN conjunct2] b
  have "calls (map (case_prod Kill) [(3, 8), (0, 9)]) one_server_left = Inr one_server_left"
    by blast
  ultimately show ?thesis
    using a b by blast
qed

lemma clamp_outcome:
  "0 \<le> (p::real) \<Longrightarrow> d < 1 \<Longrightarrow> (d < max 0 (min 1 p)) = (d < p)"
  by (auto simp: max_def min_def)

lemma success_probability_nonneg:
  "1 \<le> length (active_servers s) \<Longrightarrow>
   0 \<le> 0.95 + (real (length (active_servers s)) - 1) * 0.01"
proof -
  assume "1 \<le> length (active_servers s)"
  then have "1 \<le> real (length (active_servers s))" by simp
  then show ?thesis by (simp add: field_simps)
qed

lemma clamp_mono:
  "(a::real) \<le> b \<Longrightarrow> max 0 (min 1 a) \<le> max 0 (min 1 b)"
  by (auto simp: max_def min_def)

lemma seven_servers_length: "length (active_servers seven_servers) = 7"
  by (simp add: seven_servers_def ChaosTest_init_def SERVERS_def)

text \<open>
  Claim C6. For every live count \<open>N\<close> of at least 1 and every draw below 1, as
  \<open>random.random()\<close> gives, \<open>mock_health_check\<close> reports success exactly when
  the draw is below \<open>0.95 + (N - 1) * 0.01\<close> clamped to the interval from 0 to 1:
  the clamped value is the probability of success. After every sequence of calls on a
  new object the live count is at least 1 and the local variable
  \<open>success_probability\<close> itself equals the clamped value. Neither the local
  variable nor the clamped value decreases when the live count grows.
\<close>

theorem C6_success_probability_clamped:
  "(1 \<le> length (active_servers s) \<and> draw < 1 \<longrightarrow>
      mock_health_check jitter draw s
        = Inr (draw < max 0 (min 1 (0.95 + (real (length (active_servers s)) - 1) * 0.01)),
               100 * (5 / real (length (active_servers s))) + jitter)) \<and>
   (calls cs ChaosTest_init = Inr s \<longrightarrow>
      1 \<le> length (active_servers s) \<and>
      success_probability s
        = max 0 (min 1 (0.95 + (real (length (active_servers s)) - 1) * 0.01)) \<and>
      mock_health_check jitter draw s
        = Inr (draw < max 0 (min 1 (0.95 + (real (length (active_servers s)) - 1) * 0.01)),
               100 * (5 / real (length (active_servers s))) + jitter)) \<and>
   (length (active_servers s1) \<le> length (active_servers s2) \<longrightarrow>
      success_probability s1 \<le> success_probability s2 \<and>
      max 0 (min 1 (0.95 + (real (length (active_servers s1)) - 1) * 0.01))
        \<le> max 0 (min 1 (0.95 + (real (length (active_servers s2)) - 1) * 0.01)))"
proof (intro conjI impI)
  assume a: "1 \<le> length (active_servers s) \<and> draw < 1"
  then have ne: "active_servers s \<noteq> []" by auto
  from a clamp_outcome[OF success_probability_nonneg, of s draw]
  have "(draw < max 0 (min 1 (0.95 + (real (length (active_servers s)) - 1) * 0.01)))
        = (draw < success_probability s)"
    by (simp add: success_probability_def)
  with ne show "mock_health_check jitter draw s
        = Inr (draw < max 0 (min 1 (0.95 + (real (length (active_servers s)) - 1) * 0.01)),
               100 * (5 / real (length (active_servers s))) + jitter)"
    by (simp add: mock_health_check_def truediv_def)
next
  assume "calls cs ChaosTest_init = Inr s"
  then have "pool_ok s" using calls_init_ok by blast
  then have n: "1 \<le> length (active_servers s)" "length (active_servers s) \<le> 5"
    by (simp_all add: pool_ok_def)
  then have r: "1 \<le> real (length (active_servers s))" "real (length (active_servers s)) \<le> 5"
    by simp_all
  from n show "1 \<le> length (active_servers s)" by simp
  from r have "0 \<le> 0.95 + (real (length (active_servers s)) - 1) * 0.01"
    and "0.95 + (real (length (active_servers s)) - 1) * 0.01 \<le> 1"
    by (simp_all add: field_simps)
  then show p: "success_probability s
        = max 0 (min 1 (0.95 + (real (length (active_servers s)) - 1) * 0.01))"
    by (simp add: success_probability_def)
  from n have "active_servers s \<noteq> []" by auto
  then show "mock_health_check jitter draw s
        = Inr (draw < max 0 (min 1 (0.95 + (real (length (active_servers s)) - 1) * 0.01)),
               100 * (5 / real (length (active_servers s))) + jitter)"
    unfolding p[symmetric] by (simp add: mock_health_check_def truediv_def)
next
  assume l: "length (active_servers s1) \<le> length (active_servers s2)"
  then show "success_probability s1 \<le> success_probability s2"
    by (simp add: success_probability_def)
  from l have "0.95 + (real (length (active_servers s1)) - 1) * 0.01
      \<le> 0.95 + (real (length (active_servers s2)) - 1) * 0.01"
    by simp
  then show "max 0 (min 1 (0.95 + (real (length (active_servers s1)) - 1) * 0.01))
        \<le> max 0 (min 1 (0.95 + (real (length (active_servers s2)) - 1) * 0.01))"
    by (rule clamp_mono)
qed

theorem C6_success_probability_witness:
  "1 \<le> length (active_servers seven_servers) \<and> (0.995::real) < 1 \<and>
   success_probability seven_servers = 1.01 \<and>
   mock_health_check 20 0.995 seven_servers = Inr (True, 640 / 7) \<and>
   calls [Kill 0 1, Kill 0 2, Kill 0 3, Kill 0 4] ChaosTest_init = Inr one_server_left \<and>
   success_probability one_server_left = 0.95 \<and>
   mock_health_check 20 0.5 one_server_left = Inr (True, 520) \<and>
   length (active_servers one_server_left) \<le> length (active_servers ChaosTest_init) \<and>
   success_probability one_server_left \<le> success_probability ChaosTest_init"
proof -
  have a: "1 \<le> length (active_servers seven_servers) \<and> (0.995::real) < 1"
    by (simp add: seven_servers_length)
  from C6_success_probability_clamped[where s = seven_servers and jitter = 20 and draw = "0.995",
      THEN conjunct1, rule_format, OF a]
  have g: "mock_health_check 20 0.995 seven_servers = Inr (True, 640 / 7)"
    by (simp add: seven_servers_length)
  have v: "success_probability seven_servers = 1.01"
    by (simp add: success_probability_def seven_servers_length)
  have le: "length (active_servers one_server_left) \<le> length (active_servers ChaosTest_init)"
    by (simp add: one_server_left_length init_length)
  from C6_success_probability_clamped[where
      cs = "[Kill 0 1, Kill 0 2, Kill 0 3, Kill 0 4]" and s = one_server_left
      and jitter = 20 and draw = "0.5"
      and ?s1.0 = one_server_left and ?s2.0 = ChaosTest_init, THEN conjunct2] four_kills le
  have p: "success_probability one_server_left
        = max 0 (min 1 (0.95 + (real (length (active_servers one_server_left)) - 1) * 0.01))"
    and h: "mock_health_check 20 0.5 one_server_left
        = Inr (0.5 < max 0 (min 1 (0.95 + (real (length (active_servers one_server_left)) - 1) * 0.01)),
               100 * (5 / real (length (active_servers one_server_left))) + 20)"
    and m: "success_probability one_server_left \<le> success_probability ChaosTest_init"
    by blast+
  from p have p': "success_probability one_server_left = 0.95"
    by (simp add: one_server_left_length)
  from h have h': "mock_health_check 20 0.5 one_server_left = Inr (True, 520)"
    by (simp add: one_server_left_length)
  from a v g four_kills le p' h' m show ?thesis by blast
qed

lemma ddos_report_total:
  "\<exists>rep. DDoSSimulation_generate_report s = Inr rep"
  by (simp add: DDoSSimulation_generate_report_def truediv_def Let_def)

lemma chaos_report_total:
  "\<exists>rep. ChaosTest_generate_report c = Inr rep"
  by (simp add: ChaosTest_generate_report_def truediv_def Let_def)

text \<open>
  Claim C7. Both reports are always produced, and in each the overall line is the
  positive one exactly when every criterion line passes: normal success rate at
  least 95 and bot block rate at least 80 for the traffic flood; success rate at
  least 95 (the lines PASS and ACCEPTABLE) and average response time below 3000 for
  the attrition scenario. Rates of 96 and 82 give an overall pass; rates of 96 and 60
  give an overall fail in which the bot-blocking line alone fails.
\<close>

theorem C7_overall_is_conjunction:
  "(\<exists>rep. DDoSSimulation_generate_report s = Inr rep \<and>
      ddos_overall rep = (normal_user_access rep = PASS \<and> bot_blocking rep = PASS) \<and>
      (normal_user_access rep = PASS) = (normal_success_rate rep \<ge> 95) \<and>
      (bot_blocking rep = PASS) = (bot_block_rate rep \<ge> 80)) \<and>
   (\<exists>rep. ChaosTest_generate_report c = Inr rep \<and>
      chaos_overall rep
        = (success_rate_verdict rep \<in> {PASS, ACCEPTABLE} \<and> response_time_verdict rep = PASS) \<and>
      (success_rate_verdict rep \<in> {PASS, ACCEPTABLE}) = (success_rate rep \<ge> 95) \<and>
      (response_time_verdict rep = PASS) = (avg_response_time rep < 3000)) \<and>
   DDoSSimulation_generate_report
       \<lparr>normal_user_success = 24, normal_user_fail = 1, bot_requests_sent = 50,
        bot_requests_blocked = 41, ddos_protection_active = True\<rparr>
     = Inr \<lparr>normal_success_rate = 96, bot_block_rate = 82, normal_user_access = PASS,
            bot_blocking = PASS, ddos_overall = True\<rparr> \<and>
   DDoSSimulation_generate_report
       \<lparr>normal_user_success = 24, normal_user_fail = 1, bot_requests_sent = 50,
        bot_requests_blocked = 30, ddos_protection_active = True\<rparr>
     = Inr \<lparr>normal_success_rate = 96, bot_block_rate = 60, normal_user_access = PASS,
            bot_blocking = FAIL, ddos_overall = False\<rparr>"
proof (intro conjI)
  show "\<exists>rep. DDoSSimulation_generate_report s = Inr rep \<and>
      ddos_overall rep = (normal_user_access rep = PASS \<and> bot_blocking rep = PASS) \<and>
      (normal_user_access rep = PASS) = (normal_success_rate rep \<ge> 95) \<and>
      (bot_blocking rep = PASS) = (bot_block_rate rep \<ge> 80)"
    by (simp add: DDoSSimulation_generate_report_def truediv_def Let_def)
  show "\<exists>rep. ChaosTest_generate_report c = Inr rep \<and>
      chaos_overall rep
        = (success_rate_verdict rep \<in> {PASS, ACCEPTABLE} \<and> response_time_verdict rep = PASS) \<and>
      (success_rate_verdict rep \<in> {PASS, ACCEPTABLE}) = (success_rate rep \<ge> 95) \<and>
      (response_time_verdict rep = PASS) = (avg_response_time rep < 3000)"
    by (simp add: ChaosTest_generate_report_def truediv_def Let_def)
qed (simp_all add: DDoSSimulation_generate_report_def truediv_def)

text \<open>
  Claim C8. Neither report raises. A category with no requests recorded is reported
  with rate 0, and an empty list of response times with average 0.
\<close>

theorem C8_zero_requests_give_zero:
  "(\<exists>rep. DDoSSimulation_generate_report s = Inr rep \<and>
      (normal_user_success s + normal_user_fail s = 0 \<longrightarrow> normal_success_rate rep = 0) \<and>
      (bot_requests_sent s = 0 \<longrightarrow> bot_block_rate rep = 0)) \<and>
   (\<exists>rep. ChaosTest_generate_report c = Inr rep \<and>
      (total_requests c = 0 \<longrightarrow> success_rate rep = 0) \<and>
      (response_times c = [] \<longrightarrow> avg_response_time rep = 0))"
  by (simp add: DDoSSimulation_generate_report_def ChaosTest_generate_report_def
      truediv_def Let_def)

theorem C8_zero_requests_witness:
  "normal_user_success DDoSSimulation_init + normal_user_fail DDoSSimulation_init = 0 \<and>
   bot_requests_sent DDoSSimulation_init = 0 \<and>
   total_requests ChaosTest_init = 0 \<and> response_times ChaosTest_init = [] \<and>
   (\<exists>rep. DDoSSimulation_generate_report DDoSSimulation_init = Inr rep \<and>
      normal_success_rate rep = 0 \<and> bot_block_rate rep = 0) \<and>
   (\<exists>rep. ChaosTest_generate_report ChaosTest_init = Inr rep \<and>
      success_rate rep = 0 \<and> avg_response_time rep = 0)"
proof -
  have h: "normal_user_success DDoSSimulation_init + normal_user_fail DDoSSimulation_init = 0"
    "bot_requests_sent DDoSSimulation_init = 0"
    "total_requests ChaosTest_init = 0" "response_times ChaosTest_init = []"
    by (simp_all add: DDoSSimulation_init_def ChaosTest_init_def)
  from C8_zero_requests_give_zero[of DDoSSimulation_init ChaosTest_init] h
  show ?thesis by blast
qed

lemma check_effect:
  assumes "active_servers s \<noteq> []"
  shows "\<exists>ok s'. check_system_health jitter draw s = Inr (ok, s') \<and>
           total_requests s' = total_requests s + 1 \<and>
           (if ok
            then length (response_times s') = length (response_times s) + 1 \<and>
                 successful_requests s' = successful_requests s + 1 \<and>
                 failed_requests s' = failed_requests s
            else response_times s' = response_times s \<and>
                 successful_requests s' = successful_requests s \<and>
                 failed_requests s' = failed_requests s + 1)"
proof (cases "draw < success_probability s")
  case True
  let ?s' = "s\<lparr>total_requests := total_requests s + 1,
                successful_requests := successful_requests s + 1,
                response_times := response_times s
                   @ [100 * (5 / real (length (active_servers s))) + jitter]\<rparr>"
  from True have "check_system_health jitter draw s = Inr (True, ?s')"
    by (simp add: check_result[OF assms])
  then show ?thesis
    by (intro exI[of _ True] exI[of _ ?s']) simp
next
  case False
  let ?s' = "s\<lparr>total_requests := total_requests s + 1,
                failed_requests := failed_requests s + 1\<rparr>"
  from False have "check_system_health jitter draw s = Inr (False, ?s')"
    by (simp add: check_result[OF assms])
  then show ?thesis
    by (intro exI[of _ False] exI[of _ ?s']) simp
qed

lemma report_average:
  "\<exists>rep. ChaosTest_generate_report c = Inr rep \<and>
     avg_response_time rep
       = (if response_times c = [] then 0
          else sum_list (response_times c) / real (length (response_times c)))"
  by (simp add: ChaosTest_generate_report_def truediv_def Let_def)

lemma metrics_ok_average:
  assumes "metrics_ok c"
  shows "(if response_times c = [] then 0
          else sum_list (response_times c) / real (length (response_times c)))
       = (if successful_requests c = 0 then 0
          else sum_list (response_times c) / real_of_int (successful_requests c))"
proof -
  from assms have e: "successful_requests c = int (length (response_times c))"
    by (simp add: metrics_ok_def)
  show ?thesis unfolding e by simp
qed

text \<open>
  Claim C10. After every sequence of calls on a new object, \<open>check_system_health\<close>
  returns, and afterwards the number of response times equals \<open>successful_requests\<close>
  and \<open>total_requests\<close> equals \<open>successful_requests + failed_requests\<close>. A
  successful check adds one response time, a failed check adds none. The average
  response time of the report is the sum of the response times divided by
  \<open>successful_requests\<close>, and 0 when there is no successful request.
\<close>

theorem C10_latency_only_on_success:
  "calls cs ChaosTest_init = Inr s \<longrightarrow>
     (\<exists>ok s'. check_system_health jitter draw s = Inr (ok, s') \<and>
        int (length (response_times s')) = successful_requests s' \<and>
        total_requests s' = successful_requests s' + failed_requests s' \<and>
        total_requests s' = total_requests s + 1 \<and>
        (if ok
         then length (response_times s') = length (response_times s) + 1 \<and>
              successful_requests s' = successful_requests s + 1 \<and>
              failed_requests s' = failed_requests s
         else response_times s' = response_times s \<and>
              successful_requests s' = successful_requests s \<and>
              failed_requests s' = failed_requests s + 1) \<and>
        (\<exists>rep. ChaosTest_generate_report s' = Inr rep \<and>
           avg_response_time rep
             = (if successful_requests s' = 0 then 0
                else sum_list (response_times s') / real_of_int (successful_requests s'))))"
proof
  assume c: "calls cs ChaosTest_init = Inr s"
  then have ok: "pool_ok s" and m: "metrics_ok s"
    using calls_init_ok by blast+
  from ok have ne: "active_servers s \<noteq> []" by (auto simp: pool_ok_def)
  from check_effect[OF ne, of jitter draw] obtain b s' where
    ch: "check_system_health jitter draw s = Inr (b, s')" and
    tot: "total_requests s' = total_requests s + 1" and
    eff: "if b
            then length (response_times s') = length (response_times s) + 1 \<and>
                 successful_requests s' = successful_requests s + 1 \<and>
                 failed_requests s' = failed_requests s
            else response_times s' = response_times s \<and>
                 successful_requests s' = successful_requests s \<and>
                 failed_requests s' = failed_requests s + 1"
    by blast
  from pool_ok_check[OF ok, of jitter draw] m ch have m': "metrics_ok s'"
    by auto
  from report_average[of s'] metrics_ok_average[OF m'] have
    rep: "\<exists>rep. ChaosTest_generate_report s' = Inr rep \<and>
           avg_response_time rep
             = (if successful_requests s' = 0 then 0
                else sum_list (response_times s') / real_of_int (successful_requests s'))"
    by simp
  from m' have "int (length (response_times s')) = successful_requests s'"
    and "total_requests s' = successful_requests s' + failed_requests s'"
    by (simp_all add: metrics_ok_def)
  with ch tot eff rep
  show "\<exists>ok s'. check_system_health jitter draw s = Inr (ok, s') \<and>
        int (length (response_times s')) = successful_requests s' \<and>
        total_requests s' = successful_requests s' + failed_requests s' \<and>
        total_requests s' = total_requests s + 1 \<and>
        (if ok
         then length (response_times s') = length (response_times s) + 1 \<and>
              successful_requests s' = successful_requests s + 1 \<and>
              failed_requests s' = failed_requests s
         else response_times s' = response_times s \<and>
              successful_requests s' = successful_requests s \<and>
              failed_requests s' = failed_requests s + 1) \<and>
        (\<exists>rep. ChaosTest_generate_report s' = Inr rep \<and>
           avg_response_time rep
             = (if successful_requests s' = 0 then 0
                else sum_list (response_times s') / real_of_int (successful_requests s')))"
    by blast
qed

theorem C10_latency_witness:
  "calls [Kill 0 1, Kill 0 2, Kill 0 3, Kill 0 4] ChaosTest_init = Inr one_server_left \<and>
   (\<exists>s'. check_system_health 20 0.99 one_server_left = Inr (False, s') \<and>
      response_times s' = [] \<and> successful_requests s' = 0 \<and>
      failed_requests s' = 1 \<and> total_requests s' = 1)"
proof -
  have f: "\<And>s'. check_system_health 20 0.99 one_server_left \<noteq> Inr (True, s')"
    by (simp add: check_system_health_def mock_health_check_def truediv_def
        success_probability_def one_server_left_def Let_def)
  have z: "response_times one_server_left = []" "successful_requests one_server_left = 0"
    "failed_requests one_server_left = 0" "total_requests one_server_left = 0"
    by (simp_all add: one_server_left_def)
  from C10_latency_only_on_success[of "[Kill 0 1, Kill 0 2, Kill 0 3, Kill 0 4]"
      one_server_left 20 "0.99"] four_kills
  obtain ok s' where c: "check_system_health 20 0.99 one_server_left = Inr (ok, s')"
    and t: "total_requests s' = total_requests one_server_left + 1"
    and e: "if ok
         then length (response_times s') = length (response_times one_server_left) + 1 \<and>
              successful_requests s' = successful_requests one_server_left + 1 \<and>
              failed_requests s' = failed_requests one_server_left
         else response_times s' = response_times one_server_left \<and>
              successful_requests s' = successful_requests one_server_left \<and>
              failed_requests s' = failed_requests one_server_left + 1"
    by blast
  from c f have "\<not> ok" by (cases ok) auto
  with c t e z four_kills show ?thesis by auto
qed

end
